theory Spec2Isabelle
  imports Main
begin

section \<open>Launchd calendar intervals (schedule/schedule\_darwin.go)\<close>

subsection \<open>Calendar values and events\<close>

text \<open>
  Modelled from the spec: the type \<open>calendar.Value\<close> is declared in the package
  \<open>calendar\<close>, which is not among the sources. The spec (section 3) says that a field
  is either \<^emph>\<open>Any\<close> (unconstrained) or carries concrete integers (a singleton, a
  range or a set). The launchd code observes a value through two methods only:
  \<open>HasValue()\<close> and \<open>GetRangeValues()\<close>, the list of its concrete integers.
\<close>

datatype Value = Any | Values "int list"

fun HasValue :: "Value \<Rightarrow> bool" where
  "HasValue Any = False"
| "HasValue (Values xs) = True"

fun GetRangeValues :: "Value \<Rightarrow> int list" where
  "GetRangeValues Any = []"
| "GetRangeValues (Values xs) = xs"

text \<open>
  Modelled from the spec: \<open>calendar.Event\<close> holds one value per field kind
  (spec, section 3: Second, Minute, Hour, Day, Month, Weekday). The launchd code reads
  \<open>WeekDay\<close>, \<open>Month\<close>, \<open>Day\<close>, \<open>Hour\<close> and \<open>Minute\<close>.
\<close>

record Event =
  WeekDay :: Value
  Month :: Value
  Day :: Value
  Hour :: Value
  Minute :: Value
  Second :: Value

text \<open>
  \<open>CalendarInterval\<close>: the five integer fields of a launchd trigger. All of them are
  tagged \<open>omitempty\<close>, so the Go zero value \<open>0\<close> is what an unassigned field holds.
\<close>

record CalendarInterval =
  ciMonth :: int
  ciDay :: int
  ciWeekday :: int
  ciHour :: int
  ciMinute :: int

definition emptyInterval :: CalendarInterval where
  "emptyInterval = \<lparr>ciMonth = 0, ciDay = 0, ciWeekday = 0, ciHour = 0, ciMinute = 0\<rparr>"

subsection \<open>Counting the entries\<close>

text \<open>
  Go's \<open>int\<close> has 64 bits on the platforms of this file (darwin): a product that
  leaves the range \<open>-2^63 .. 2^63 - 1\<close> wraps around.
\<close>

definition wrap64 :: "int \<Rightarrow> int" where
  "wrap64 x = (x + 2 ^ 63) mod 2 ^ 64 - 2 ^ 63"

text \<open>\<open>permutations(total, num)\<close>.\<close>

definition permutations :: "int \<Rightarrow> int \<Rightarrow> int" where
  "permutations tot num = (if tot = 0 then num else wrap64 (tot * num))"

text \<open>The slice \<open>values\<close> built at the head of \<open>getCalendarIntervalsFromSchedule\<close>.\<close>

definition scheduleValues :: "Event \<Rightarrow> Value list" where
  "scheduleValues schedule =
     [WeekDay schedule, Month schedule, Day schedule, Hour schedule, Minute schedule]"

text \<open>The first loop: \<open>total\<close> starts at \<open>0\<close> and is updated for every value that is set.\<close>

fun countEntries :: "int \<Rightarrow> Value list \<Rightarrow> int" where
  "countEntries tot [] = tot"
| "countEntries tot (v # vs) =
     (if HasValue v
      then countEntries (permutations tot (int (length (GetRangeValues v)))) vs
      else countEntries tot vs)"

subsection \<open>Filling the entries\<close>

datatype panic = IndexOutOfRange | DivideByZero | MakeSliceLenOutOfRange

text \<open>
  Modelled from the spec: the helper \<open>spread(values, total, &permutation)\<close> is called
  by \<open>getCalendarIntervalsFromSchedule\<close> but defined in none of the sources. The spec
  (section 4.3, step 3) says: entry index \<open>i\<close> (\<open>0 \<le> i < total\<close>) selects the value at
  position \<open>(i / blockSize) mod cardinality\<close>, where \<open>blockSize\<close> is the product of the
  cardinalities of all later fields. The argument \<open>permutation\<close> is the product of the
  cardinalities of the fields spread so far (\<open>1\<close> at the first call), so the product over
  the later fields is \<open>total / (permutation * cardinality)\<close>; the call leaves
  \<open>permutation * cardinality\<close> behind the pointer. Go's integer division panics on a
  zero divisor.
\<close>

definition spread :: "int list \<Rightarrow> nat \<Rightarrow> nat \<Rightarrow> panic + (int list \<times> nat)" where
  "spread vals tot permutation =
     (let cardinality = length vals in
      if permutation * cardinality = 0 then Inl DivideByZero
      else let blockSize = tot div (permutation * cardinality) in
        if 0 < tot \<and> blockSize = 0 then Inl DivideByZero
        else Inr (map (\<lambda>i. vals ! ((i div blockSize) mod cardinality)) [0..<tot],
                  permutation * cardinality))"

text \<open>
  The loop \<open>for i := 0; i < total; i++ { entries[i].Weekday = line[i] }\<close>. Indexing a
  slice out of range panics in Go.
\<close>

function setWeekdays ::
  "nat \<Rightarrow> nat \<Rightarrow> int list \<Rightarrow> CalendarInterval list \<Rightarrow> panic + CalendarInterval list" where
  "setWeekdays i tot line entries =
     (if i < tot then
        (if i < length entries \<and> i < length line
         then setWeekdays (Suc i) tot line
                (entries[i := (entries ! i)\<lparr>ciWeekday := line ! i\<rparr>])
         else Inl IndexOutOfRange)
      else Inr entries)"
  by pat_completeness auto
termination
  by (relation "measure (\<lambda>(i, tot, line, entries). tot - i)") auto

declare setWeekdays.simps [simp del]

text \<open>
  \<open>make([]CalendarInterval, total)\<close> panics with \<open>len out of range\<close> when the length
  is negative or when the slice would be larger than the Go runtime can allocate at
  all (\<open>maxAlloc\<close>, \<open>2^48\<close> bytes on 64-bit darwin). A \<open>CalendarInterval\<close> is five
  8-byte integers. Running out of memory below that limit is not part of the model.
\<close>

definition maxAlloc :: int where
  "maxAlloc = 2 ^ 48"

definition sizeofCalendarInterval :: int where
  "sizeofCalendarInterval = 5 * 8"

text \<open>
  \<open>getCalendarIntervalsFromSchedule\<close>: only the weekday is written into the entries.
  After \<open>make\<close>, \<open>total\<close> is not negative and is passed on as a natural number.
\<close>

definition getCalendarIntervalsFromSchedule :: "Event \<Rightarrow> panic + CalendarInterval list" where
  "getCalendarIntervalsFromSchedule schedule =
     (let tot = countEntries 0 (scheduleValues schedule) in
      if tot < 0 \<or> maxAlloc < sizeofCalendarInterval * tot then Inl MakeSliceLenOutOfRange
      else
        let entries = replicate (nat tot) emptyInterval
        in if HasValue (WeekDay schedule) then
             (case spread (GetRangeValues (WeekDay schedule)) (nat tot) 1 of
                Inl p \<Rightarrow> Inl p
              | Inr (line, permutation) \<Rightarrow> setWeekdays 0 (nat tot) line entries)
           else Inr entries)"

text \<open>
  \<open>getCalendarIntervalsFromSchedules\<close>: the entries of all schedules, appended in order.
  A panic in one schedule ends the whole call.
\<close>

fun getCalendarIntervalsFromSchedules :: "Event list \<Rightarrow> panic + CalendarInterval list" where
  "getCalendarIntervalsFromSchedules [] = Inr []"
| "getCalendarIntervalsFromSchedules (schedule # schedules) =
     (case getCalendarIntervalsFromSchedule schedule of
        Inl p \<Rightarrow> Inl p
      | Inr es \<Rightarrow>
          (case getCalendarIntervalsFromSchedules schedules of
             Inl p \<Rightarrow> Inl p
           | Inr rest \<Rightarrow> Inr (es @ rest)))"

subsection \<open>What the spec counts\<close>

text \<open>
  The words of the spec (section 4.3 and section 8): the cardinality of a field is the
  number of its concrete values, a field is multi-valued when it carries more than one,
  and the entry count is the product of the cardinalities of the multi-valued fields
  (the empty product is \<open>1\<close>). \<open>eventFields\<close> lists all six fields of an expression.
\<close>

definition cardinality :: "Value \<Rightarrow> nat" where
  "cardinality v = length (GetRangeValues v)"

definition multiValued :: "Value \<Rightarrow> bool" where
  "multiValued v = (1 < cardinality v)"

definition cardinalityProduct :: "Value list \<Rightarrow> nat" where
  "cardinalityProduct vs = prod_list (map cardinality (filter multiValued vs))"

definition eventFields :: "Event \<Rightarrow> Value list" where
  "eventFields schedule =
     [WeekDay schedule, Month schedule, Day schedule, Hour schedule, Minute schedule,
      Second schedule]"

text \<open>
  The domains of the five fields, as the comments of \<open>CalendarInterval\<close> give them:
  weekday \<open>0..7\<close>, month \<open>1..12\<close>, day \<open>1..31\<close>, hour \<open>0..23\<close>, minute \<open>0..59\<close>. A
  field within its domain has at most as many values as the domain has members.
\<close>

definition withinDomains :: "Event \<Rightarrow> bool" where
  "withinDomains schedule =
     (cardinality (WeekDay schedule) \<le> 8 \<and> cardinality (Month schedule) \<le> 12 \<and>
      cardinality (Day schedule) \<le> 31 \<and> cardinality (Hour schedule) \<le> 24 \<and>
      cardinality (Minute schedule) \<le> 60)"

text \<open>A constrained field carries at least one concrete value.\<close>

fun wellFormed :: "Value \<Rightarrow> bool" where
  "wellFormed Any = True"
| "wellFormed (Values xs) = (xs \<noteq> [])"

subsection \<open>Example expressions\<close>

text \<open>
  The three rules of the comment above \<open>getCalendarIntervalsFromSchedules\<close>, with
  Sunday \<open>0\<close> to Saturday \<open>6\<close>, and the expression that constrains nothing.
\<close>

definition weekdaysHalfHourly :: Event where
  "weekdaysHalfHourly =
     \<lparr>WeekDay = Values [1, 2, 3, 4, 5], Month = Any, Day = Any, Hour = Any,
      Minute = Values [0, 30], Second = Values [0]\<rparr>"

definition saturdayTwice :: Event where
  "saturdayTwice =
     \<lparr>WeekDay = Values [6], Month = Any, Day = Any, Hour = Values [0, 12],
      Minute = Values [0], Second = Values [0]\<rparr>"

definition firstOfMonth :: Event where
  "firstOfMonth =
     \<lparr>WeekDay = Any, Month = Any, Day = Values [1], Hour = Any, Minute = Any,
      Second = Any\<rparr>"

definition mondayTuesdayTwice :: Event where
  "mondayTuesdayTwice =
     \<lparr>WeekDay = Values [1, 2], Month = Any, Day = Any, Hour = Values [0, 12],
      Minute = Any, Second = Any\<rparr>"

definition saturdayHalfMinutes :: Event where
  "saturdayHalfMinutes =
     \<lparr>WeekDay = Values [6], Month = Any, Day = Any, Hour = Any, Minute = Any,
      Second = Values [0, 30]\<rparr>"

definition unconstrained :: Event where
  "unconstrained =
     \<lparr>WeekDay = Any, Month = Any, Day = Any, Hour = Any, Minute = Any, Second = Any\<rparr>"

section \<open>Job names (schedule/schedule\_darwin.go)\<close>












section \<open>Jobs (schedule/job.go)\<close>

subsection \<open>Configuration, errors and calls\<close>

text \<open>
  The fields of \<open>config.ScheduleConfig\<close> that \<open>job.go\<close> reads. The field
  \<open>RemoveOnly\<close> is called \<open>RemoveOnlyFlag\<close> here; \<open>RemoveOnly\<close> is the method of the job.
\<close>

record ScheduleConfig =
  Permission :: string
  Schedules :: "string list"
  SubTitle :: string
  RemoveOnlyFlag :: bool

text \<open>
  Go's \<open>error\<close> values: the package variable \<open>ErrorJobCanBeRemovedOnly\<close>, the error
  built by \<open>permissionError(action)\<close>, and the errors of the handler, which the job
  passes on without looking at them. A \<open>nil\<close> error is \<open>None\<close>.
\<close>

datatype error = ErrorJobCanBeRemovedOnly | PermissionError string | HandlerError string

text \<open>
  Modelled from the spec: \<open>permissionError\<close> is defined in none of the sources; the spec
  (section 7) has it build the PermissionError for the action that was refused.
\<close>

definition permissionError :: "string \<Rightarrow> error" where
  "permissionError action = PermissionError action"

text \<open>Every call that leaves \<open>job.go\<close>, with its arguments, in the order it is made.\<close>

datatype call =
    DetectSchedulePermissionCall string
  | GetSchedulePermissionCall string
  | CheckPermissionCall string
  | ParseSchedulesCall "string list"
  | DisplayParsedSchedulesCall string "Event list"
  | DisplaySchedulesCall string "string list"
  | CreateJobCall ScheduleConfig "Event list" string
  | RemoveJobCall ScheduleConfig string
  | DisplayJobStatusCall ScheduleConfig

fun isHandlerCall :: "call \<Rightarrow> bool" where
  "isHandlerCall (DetectSchedulePermissionCall p) = False"
| "isHandlerCall (GetSchedulePermissionCall p) = False"
| "isHandlerCall (CheckPermissionCall p) = False"
| "isHandlerCall c = True"

fun isCreateJobCall :: "call \<Rightarrow> bool" where
  "isCreateJobCall (CreateJobCall c s p) = True"
| "isCreateJobCall c = False"

text \<open>
  The interface \<open>Handler\<close> is declared outside the sources; these are the methods
  \<open>job.go\<close> calls. A handler talks to the native scheduler, so what a method returns may
  depend on the calls made before it: each method takes the calls made so far.
  \<open>DisplayParsedSchedules\<close> returns nothing and appears in the list of calls only.
\<close>

record Handler =
  ParseSchedules :: "call list \<Rightarrow> string list \<Rightarrow> error + Event list"
  DisplaySchedules :: "call list \<Rightarrow> string \<Rightarrow> string list \<Rightarrow> error option"
  CreateJob :: "call list \<Rightarrow> ScheduleConfig \<Rightarrow> Event list \<Rightarrow> string \<Rightarrow> error option"
  RemoveJob :: "call list \<Rightarrow> ScheduleConfig \<Rightarrow> string \<Rightarrow> error option"
  DisplayJobStatus :: "call list \<Rightarrow> ScheduleConfig \<Rightarrow> error option"

text \<open>
  The permission helpers of the package, defined outside the sources, are parameters:
  \<open>detectSchedulePermission\<close> returns a permission and a flag, \<open>getSchedulePermission\<close>
  a permission, and \<open>checkPermission\<close> says whether the current user has it.
\<close>

record Platform =
  detectSchedulePermission :: "string \<Rightarrow> string \<times> bool"
  getSchedulePermission :: "string \<Rightarrow> string"
  checkPermission :: "string \<Rightarrow> bool"

record Job =
  config :: ScheduleConfig
  handler :: Handler

subsection \<open>The methods of a job\<close>

text \<open>Each method returns its error and the calls it made.\<close>

definition RemoveOnly :: "Job \<Rightarrow> bool" where
  "RemoveOnly j = RemoveOnlyFlag (config j)"

definition Create :: "Platform \<Rightarrow> Job \<Rightarrow> error option \<times> call list" where
  "Create P j =
     (if RemoveOnly j then (Some ErrorJobCanBeRemovedOnly, [])
      else
        let permission = getSchedulePermission P (Permission (config j));
            ok = checkPermission P permission;
            t1 = [GetSchedulePermissionCall (Permission (config j)),
                  CheckPermissionCall permission]
        in if \<not> ok then (Some (permissionError ''create''), t1)
           else
             let t2 = t1 @ [ParseSchedulesCall (Schedules (config j))] in
             case ParseSchedules (handler j) t1 (Schedules (config j)) of
               Inl err \<Rightarrow> (Some err, t2)
             | Inr schedules \<Rightarrow>
                 if 0 < length schedules then
                   let t3 = t2 @ [DisplayParsedSchedulesCall (SubTitle (config j)) schedules]
                   in (CreateJob (handler j) t3 (config j) schedules permission,
                       t3 @ [CreateJobCall (config j) schedules permission])
                 else
                   let t3 = t2 @ [DisplaySchedulesCall (SubTitle (config j))
                                    (Schedules (config j))]
                   in (case DisplaySchedules (handler j) t2 (SubTitle (config j))
                              (Schedules (config j)) of
                         Some err \<Rightarrow> (Some err, t3)
                       | None \<Rightarrow>
                           (CreateJob (handler j) t3 (config j) schedules permission,
                            t3 @ [CreateJobCall (config j) schedules permission])))"

definition Remove :: "Platform \<Rightarrow> Job \<Rightarrow> error option \<times> call list" where
  "Remove P j =
     (let (permission, t1) =
            (if RemoveOnly j
             then (fst (detectSchedulePermission P (Permission (config j))),
                   [DetectSchedulePermissionCall (Permission (config j))])
             else (getSchedulePermission P (Permission (config j)),
                   [GetSchedulePermissionCall (Permission (config j))]));
          ok = checkPermission P permission;
          t2 = t1 @ [CheckPermissionCall permission]
      in if \<not> ok then (Some (permissionError ''remove''), t2)
         else (RemoveJob (handler j) t2 (config j) permission,
               t2 @ [RemoveJobCall (config j) permission]))"

definition Status :: "Job \<Rightarrow> error option \<times> call list" where
  "Status j =
     (if RemoveOnly j then (Some ErrorJobCanBeRemovedOnly, [])
      else
        let t1 = [ParseSchedulesCall (Schedules (config j))] in
        case ParseSchedules (handler j) [] (Schedules (config j)) of
          Inl err \<Rightarrow> (Some err, t1)
        | Inr schedules \<Rightarrow>
            if 0 < length schedules then
              let t2 = t1 @ [DisplayParsedSchedulesCall (SubTitle (config j)) schedules]
              in (DisplayJobStatus (handler j) t2 (config j),
                  t2 @ [DisplayJobStatusCall (config j)])
            else
              let t2 = t1 @ [DisplaySchedulesCall (SubTitle (config j))
                               (Schedules (config j))]
              in (case DisplaySchedules (handler j) t1 (SubTitle (config j))
                         (Schedules (config j)) of
                    Some err \<Rightarrow> (Some err, t2)
                  | None \<Rightarrow>
                      (DisplayJobStatus (handler j) t2 (config j),
                       t2 @ [DisplayJobStatusCall (config j)])))"

subsection \<open>Example platform, handlers and jobs\<close>

text \<open>
  A user without administrator rights: a permission named in the configuration is
  taken as it is, anything else resolves to \<open>user\<close>, and only \<open>system\<close> is refused.
\<close>

definition nonRoot :: Platform where
  "nonRoot =
     \<lparr>detectSchedulePermission =
        (\<lambda>p. if p = ''system'' then (''system'', True)
             else if p = ''user'' then (''user'', True) else (''user'', False)),
      getSchedulePermission = (\<lambda>p. if p = ''system'' then ''system'' else ''user''),
      checkPermission = (\<lambda>p. p \<noteq> ''system'')\<rparr>"

definition quietHandler :: Handler where
  "quietHandler =
     \<lparr>ParseSchedules = (\<lambda>t raw. Inr []),
      DisplaySchedules = (\<lambda>t title raw. None),
      CreateJob = (\<lambda>t c schedules permission. None),
      RemoveJob = (\<lambda>t c permission. None),
      DisplayJobStatus = (\<lambda>t c. None)\<rparr>"

definition failingHandler :: Handler where
  "failingHandler =
     \<lparr>ParseSchedules =
        (\<lambda>t raw. if raw = [] then Inr [] else Inl (HandlerError ''empty schedule'')),
      DisplaySchedules = (\<lambda>t title raw. None),
      CreateJob = (\<lambda>t c schedules permission. Some (HandlerError ''cannot write plist'')),
      RemoveJob = (\<lambda>t c permission. Some (HandlerError ''cannot unload'')),
      DisplayJobStatus = (\<lambda>t c. None)\<rparr>"

definition jobFor :: "string \<Rightarrow> string list \<Rightarrow> bool \<Rightarrow> Handler \<Rightarrow> Job" where
  "jobFor permission raw removeOnly h =
     \<lparr>config = \<lparr>Permission = permission, Schedules = raw, SubTitle = ''backup'',
                 RemoveOnlyFlag = removeOnly\<rparr>,
      handler = h\<rparr>"

section \<open>Lock (package lock)\<close>

text \<open>
  Modelled from the spec: of the package \<open>lock\<close> the sources hold the test only
  (\<open>TestLockIsAvailable\<close>, \<open>TestLockIsNotAvailable\<close>); \<open>NewLock\<close>, \<open>TryAcquire\<close> and
  \<open>Release\<close> follow the spec (sections 3 and 4.6). A lock is identified by a path. The
  marker at that path holds the owner metadata (user, host, timestamp, process id) and
  exists only while the lock is held. \<open>TryAcquire\<close> creates the marker if and only if
  none exists (create-if-absent) and returns whether it did. \<open>Release\<close> removes the
  marker only if it is owned by the holder; when the lock is not held it does nothing.
  The file system is the map from paths to the markers that exist.
\<close>

record Owner =
  user :: string
  host :: string
  timestamp :: string
  pid :: nat

type_synonym filesystem = "string \<Rightarrow> Owner option"

record Lock =
  Lockfile :: string
  holder :: "Owner option"

text \<open>
  Modelled from the spec: \<open>NewLock\<close> makes a handle for a path; the handle holds no
  lock yet.
\<close>

definition NewLock :: "string \<Rightarrow> Lock" where
  "NewLock filename = \<lparr>Lockfile = filename, holder = None\<rparr>"

text \<open>
  Modelled from the spec: \<open>TryAcquire\<close> does not block. If no marker exists at the
  path it creates one with the caller's metadata and returns true; if a marker exists
  it returns false and changes nothing. The caller's metadata (who is running, and
  when) is an argument.
\<close>

definition TryAcquire :: "Owner \<Rightarrow> filesystem \<Rightarrow> Lock \<Rightarrow> bool \<times> filesystem \<times> Lock" where
  "TryAcquire me fs l =
     (case fs (Lockfile l) of
        None \<Rightarrow> (True, fs(Lockfile l \<mapsto> me), l\<lparr>holder := Some me\<rparr>)
      | Some marker \<Rightarrow> (False, fs, l))"

text \<open>
  Modelled from the spec: \<open>Release\<close> removes the marker only if it is the one this
  handle created; on a handle that holds no lock it is a no-op.
\<close>

definition Release :: "filesystem \<Rightarrow> Lock \<Rightarrow> filesystem \<times> Lock" where
  "Release fs l =
     (case holder l of
        None \<Rightarrow> (fs, l)
      | Some me \<Rightarrow>
          ((if fs (Lockfile l) = Some me then fs(Lockfile l := None) else fs),
           l\<lparr>holder := None\<rparr>))"

text \<open>
  The steps of \<open>TestLockIsNotAvailable\<close>, followed by the release of the first handle
  and one more attempt (spec, section 8): the results of the three attempts.
\<close>

definition lockScenario ::
  "Owner \<Rightarrow> Owner \<Rightarrow> Owner \<Rightarrow> filesystem \<Rightarrow> Lock \<Rightarrow> Lock \<Rightarrow> Lock \<Rightarrow> bool \<times> bool \<times> bool" where
  "lockScenario o1 o2 o3 fs l1 l2 l3 =
     (let (r1, fs1, l1') = TryAcquire o1 fs l1;
          (r2, fs2, l2') = TryAcquire o2 fs1 l2;
          (fs3, l1'') = Release fs2 l1';
          (r3, fs4, l3') = TryAcquire o3 fs3 l3
      in (r1, r2, r3))"

definition someOwner :: "nat \<Rightarrow> Owner" where
  "someOwner n = \<lparr>user = ''fred'', host = ''laptop'', timestamp = ''09:15:00'', pid = n\<rparr>"

section \<open>Properties of the calendar intervals\<close>

subsection \<open>The number of entries\<close>

lemma cardinalityProduct_Any: "cardinalityProduct (Any # vs) = cardinalityProduct vs"
  by (simp add: cardinalityProduct_def multiValued_def cardinality_def)

lemma cardinalityProduct_Values:
  assumes "xs \<noteq> []"
  shows "cardinalityProduct (Values xs # vs) = length xs * cardinalityProduct vs"
proof (cases "1 < length xs")
  case True
  then show ?thesis
    by (simp add: cardinalityProduct_def multiValued_def cardinality_def)
next
  case False
  with assms have "length xs = 1" by (cases xs) auto
  then show ?thesis
    by (simp add: cardinalityProduct_def multiValued_def cardinality_def)
qed

lemma cardinalityProduct_pos: "0 < cardinalityProduct vs"
  by (induction vs) (auto simp: cardinalityProduct_def multiValued_def)

lemma cardinalityProduct_single:
  "\<not> list_ex multiValued vs \<Longrightarrow> cardinalityProduct vs = 1"
  by (induction vs) (auto simp: cardinalityProduct_def)

text \<open>A product inside the range of \<open>int\<close> is not changed by the wrap-around.\<close>

lemma wrap64_id: "0 \<le> x \<Longrightarrow> x < 2 ^ 63 \<Longrightarrow> wrap64 x = x"
  by (simp add: wrap64_def)

text \<open>
  Once \<open>total\<close> is positive, every further field multiplies it, as long as the product
  stays below \<open>2^63\<close>.
\<close>

lemma countEntries_pos:
  "list_all wellFormed vs \<Longrightarrow> 0 < t \<Longrightarrow> t * int (cardinalityProduct vs) < 2 ^ 63 \<Longrightarrow>
   countEntries t vs = t * int (cardinalityProduct vs)"
proof (induction vs arbitrary: t)
  case Nil
  then show ?case by (simp add: cardinalityProduct_def)
next
  case (Cons v vs)
  show ?case
  proof (cases v)
    case Any
    with Cons show ?thesis by (simp add: cardinalityProduct_Any)
  next
    case (Values xs)
    with Cons.prems have ne: "xs \<noteq> []" and wf: "list_all wellFormed vs" by simp_all
    define n where "n = int (length xs)"
    define c where "c = int (cardinalityProduct vs)"
    have n: "0 < n" using ne by (simp add: n_def)
    have c: "1 \<le> c" using cardinalityProduct_pos [of vs] by (simp add: c_def)
    have all: "t * (n * c) < 2 ^ 63"
      using Cons.prems(3) Values ne by (simp add: cardinalityProduct_Values n_def c_def)
    have tn: "0 < t * n" using Cons.prems(2) n by simp
    have "t * n * 1 \<le> t * n * c"
      using tn c by (intro mult_left_mono) simp_all
    then have small: "t * n < 2 ^ 63" using all by (simp add: mult.assoc)
    have "countEntries t (v # vs) = countEntries (t * n) vs"
      using Values Cons.prems(2) tn small by (simp add: permutations_def wrap64_id n_def)
    also have "\<dots> = t * n * c"
      unfolding c_def using wf tn all by (intro Cons.IH) (simp_all add: c_def mult.assoc)
    finally show ?thesis
      using Values ne by (simp add: cardinalityProduct_Values n_def c_def mult.assoc)
  qed
qed

text \<open>From the initial \<open>0\<close>, the first field that is set replaces \<open>total\<close>.\<close>

lemma countEntries_zero:
  "list_all wellFormed vs \<Longrightarrow> int (cardinalityProduct vs) < 2 ^ 63 \<Longrightarrow>
   countEntries 0 vs = (if list_ex HasValue vs then int (cardinalityProduct vs) else 0)"
proof (induction vs)
  case Nil
  then show ?case by simp
next
  case (Cons v vs)
  show ?case
  proof (cases v)
    case Any
    with Cons show ?thesis by (simp add: cardinalityProduct_Any)
  next
    case (Values xs)
    with Cons.prems have ne: "xs \<noteq> []" and wf: "list_all wellFormed vs" by simp_all
    have bound: "int (length xs) * int (cardinalityProduct vs) < 2 ^ 63"
      using Cons.prems(2) Values ne by (simp add: cardinalityProduct_Values)
    have "countEntries 0 (v # vs) = countEntries (int (length xs)) vs"
      using Values by (simp add: permutations_def)
    also have "\<dots> = int (length xs) * int (cardinalityProduct vs)"
      using wf ne bound by (intro countEntries_pos) simp_all
    finally show ?thesis using Values ne by (simp add: cardinalityProduct_Values)
  qed
qed

text \<open>The weekday loop ends without a panic when \<open>line\<close> and \<open>entries\<close> are long enough.\<close>

lemma setWeekdays_length:
  "tot \<le> length entries \<Longrightarrow> tot \<le> length line \<Longrightarrow>
   \<exists>es. setWeekdays i tot line entries = Inr es \<and> length es = length entries"
proof (induction i tot line entries rule: setWeekdays.induct)
  case (1 i tot line entries)
  show ?case
  proof (cases "i < tot")
    case True
    then have "i < length entries \<and> i < length line" using "1.prems" by simp
    then show ?thesis using "1.IH" [OF True] "1.prems" True
      by (subst setWeekdays.simps) simp
  next
    case False
    then show ?thesis by (subst setWeekdays.simps) simp
  qed
qed

lemma spread_length:
  assumes ne: "vals \<noteq> []" and le: "tot = 0 \<or> length vals \<le> tot"
  shows "\<exists>line p. spread vals tot 1 = Inr (line, p) \<and> length line = tot"
proof (cases "tot = 0")
  case True
  then show ?thesis using ne by (simp add: spread_def Let_def)
next
  case False
  then have "length vals \<le> tot" using le by simp
  then have "0 < tot div length vals"
    using ne by (simp add: div_greater_zero_iff)
  then show ?thesis using ne by (simp add: spread_def Let_def)
qed

text \<open>Within the domains the product of the cardinalities is small.\<close>

lemma cardinalityProduct_le:
  "list_all2 (\<lambda>v b. cardinality v \<le> b \<and> 1 \<le> b) vs bs \<Longrightarrow>
   cardinalityProduct vs \<le> prod_list bs"
proof (induction vs bs rule: list_all2_induct)
  case Nil
  then show ?case by (simp add: cardinalityProduct_def)
next
  case (Cons v vs b bs)
  have step: "cardinalityProduct (v # vs) =
      (if multiValued v then cardinality v * cardinalityProduct vs else cardinalityProduct vs)"
    by (simp add: cardinalityProduct_def)
  show ?case
  proof (cases "multiValued v")
    case True
    have "cardinality v * cardinalityProduct vs \<le> b * prod_list bs"
      using Cons by (intro mult_mono) simp_all
    then show ?thesis using True step by simp
  next
    case False
    have "1 * cardinalityProduct vs \<le> b * prod_list bs"
      using Cons by (intro mult_mono) simp_all
    then show ?thesis using False step by simp
  qed
qed

lemma withinDomains_product:
  assumes "withinDomains schedule"
  shows "cardinalityProduct (scheduleValues schedule) \<le> 4285440"
proof -
  have "list_all2 (\<lambda>v b. cardinality v \<le> b \<and> 1 \<le> b)
          (scheduleValues schedule) [8, 12, 31, 24, 60]"
    using assms by (simp add: withinDomains_def scheduleValues_def)
  from cardinalityProduct_le [OF this] show ?thesis by simp
qed

text \<open>
  C1. The claim: for every calendar expression the number of entries is the product of
  the cardinalities of all fields with more than one value, and exactly one when there
  is no such field. The code counts the five fields of a launchd trigger (weekday,
  month, day, hour, minute); the seconds are not among them. For an expression in which
  at least one of these five fields is set, the number of entries is the product of the
  cardinalities of the multi-valued ones among the five, and it is \<open>1\<close> when none of the
  five is multi-valued. The count is computed in Go's \<open>int\<close> and the slice is made by
  \<open>make\<close>: the statement is for fields within their domains, where the product neither
  wraps around nor exceeds what \<open>make\<close> accepts.
\<close>

theorem entries_count_product:
  assumes wf: "list_all wellFormed (scheduleValues schedule)"
    and ex: "list_ex HasValue (scheduleValues schedule)"
    and dom: "withinDomains schedule"
  shows "\<exists>entries. getCalendarIntervalsFromSchedule schedule = Inr entries \<and>
           length entries = cardinalityProduct (scheduleValues schedule) \<and>
           (\<not> list_ex multiValued (scheduleValues schedule) \<longrightarrow> length entries = 1)"
proof -
  define tot where "tot = countEntries 0 (scheduleValues schedule)"
  define n where "n = cardinalityProduct (scheduleValues schedule)"
  have small: "n \<le> 4285440" unfolding n_def using dom by (rule withinDomains_product)
  then have "int n < 2 ^ 63" by simp
  then have tot: "tot = int n"
    unfolding tot_def n_def using wf ex by (simp add: countEntries_zero)
  have make: "\<not> (tot < 0 \<or> maxAlloc < sizeofCalendarInterval * tot)"
    using tot small by (simp add: maxAlloc_def sizeofCalendarInterval_def)
  have one: "\<not> list_ex multiValued (scheduleValues schedule) \<longrightarrow> n = 1"
    unfolding n_def using cardinalityProduct_single [of "scheduleValues schedule"] by simp
  have "\<exists>entries. getCalendarIntervalsFromSchedule schedule = Inr entries \<and>
          length entries = n"
  proof (cases "WeekDay schedule")
    case Any
    then show ?thesis using tot make
      by (simp add: getCalendarIntervalsFromSchedule_def tot_def [symmetric])
  next
    case (Values xs)
    then have ne: "xs \<noteq> []" using wf by (simp add: scheduleValues_def)
    have "n = length xs * cardinalityProduct (tl (scheduleValues schedule))"
      unfolding n_def using Values ne
      by (simp add: scheduleValues_def cardinalityProduct_Values)
    then have "length xs \<le> n"
      using cardinalityProduct_pos [of "tl (scheduleValues schedule)"] by simp
    then obtain line p where sp: "spread xs n 1 = Inr (line, p)"
      and len: "length line = n"
      using spread_length [OF ne, of n] by blast
    obtain es where "setWeekdays 0 n line (replicate n emptyInterval) = Inr es"
      and "length es = n"
      using setWeekdays_length [of n "replicate n emptyInterval" line 0] len by auto
    then show ?thesis using Values sp tot make
      by (simp add: getCalendarIntervalsFromSchedule_def tot_def [symmetric])
  qed
  then show ?thesis using one by (auto simp: n_def)
qed

theorem entries_count_product_witness:
  "list_all wellFormed (scheduleValues saturdayTwice) \<and>
   list_ex HasValue (scheduleValues saturdayTwice) \<and>
   withinDomains saturdayTwice \<and>
   (\<exists>entries. getCalendarIntervalsFromSchedule saturdayTwice = Inr entries \<and>
      length entries = 2) \<and>
   list_all wellFormed (scheduleValues firstOfMonth) \<and>
   list_ex HasValue (scheduleValues firstOfMonth) \<and>
   withinDomains firstOfMonth \<and>
   \<not> list_ex multiValued (scheduleValues firstOfMonth) \<and>
   (\<exists>entries. getCalendarIntervalsFromSchedule firstOfMonth = Inr entries \<and>
      length entries = 1)"
proof -
  have wf: "list_all wellFormed (scheduleValues saturdayTwice)"
    by (simp add: saturdayTwice_def scheduleValues_def)
  have ex: "list_ex HasValue (scheduleValues saturdayTwice)"
    by (simp add: saturdayTwice_def scheduleValues_def)
  have dom: "withinDomains saturdayTwice"
    by (simp add: saturdayTwice_def withinDomains_def cardinality_def)
  have prod: "cardinalityProduct (scheduleValues saturdayTwice) = 2"
    by (simp add: saturdayTwice_def scheduleValues_def cardinalityProduct_def
        multiValued_def cardinality_def)
  have wf1: "list_all wellFormed (scheduleValues firstOfMonth)"
    by (simp add: firstOfMonth_def scheduleValues_def)
  have ex1: "list_ex HasValue (scheduleValues firstOfMonth)"
    by (simp add: firstOfMonth_def scheduleValues_def)
  have dom1: "withinDomains firstOfMonth"
    by (simp add: firstOfMonth_def withinDomains_def cardinality_def)
  have single: "\<not> list_ex multiValued (scheduleValues firstOfMonth)"
    by (simp add: firstOfMonth_def scheduleValues_def multiValued_def cardinality_def)
  have two: "\<exists>entries. getCalendarIntervalsFromSchedule saturdayTwice = Inr entries \<and>
      length entries = 2"
    using entries_count_product [OF wf ex dom] prod by auto
  have one: "\<exists>entries. getCalendarIntervalsFromSchedule firstOfMonth = Inr entries \<and>
      length entries = 1"
    using entries_count_product [OF wf1 ex1 dom1] single by auto
  show ?thesis using wf ex dom two wf1 ex1 dom1 single one by simp
qed

text \<open>
  Saturday at the seconds \<open>0\<close> and \<open>30\<close>: the seconds are the only multi-valued field,
  so the claim counts two entries. The code does not read the seconds and returns one
  entry.
\<close>

theorem seconds_are_not_counted:
  "getCalendarIntervalsFromSchedule saturdayHalfMinutes =
     Inr [\<lparr>ciMonth = 0, ciDay = 0, ciWeekday = 6, ciHour = 0, ciMinute = 0\<rparr>] \<and>
   filter multiValued (eventFields saturdayHalfMinutes) = [Values [0, 30]] \<and>
   cardinalityProduct (eventFields saturdayHalfMinutes) = 2"
proof -
  have "getCalendarIntervalsFromSchedule saturdayHalfMinutes =
     Inr [\<lparr>ciMonth = 0, ciDay = 0, ciWeekday = 6, ciHour = 0, ciMinute = 0\<rparr>]"
    by code_simp
  then show ?thesis
    by (simp add: saturdayHalfMinutes_def eventFields_def cardinalityProduct_def
        multiValued_def cardinality_def)
qed

subsection \<open>What the entries hold\<close>

text \<open>
  Whatever \<open>line\<close> holds, the weekday loop leaves month, day, hour and minute as they
  were; the entries start as zero values, so these four fields stay \<open>0\<close>.
\<close>

lemma setWeekdays_keeps:
  "setWeekdays i tot line entries = Inr es \<Longrightarrow>
   map ciMonth es = map ciMonth entries \<and> map ciDay es = map ciDay entries \<and>
   map ciHour es = map ciHour entries \<and> map ciMinute es = map ciMinute entries"
proof (induction i tot line entries rule: setWeekdays.induct)
  case (1 i tot line entries)
  show ?case
  proof (cases "i < tot")
    case True
    with "1.prems" have ok: "i < length entries \<and> i < length line"
      by (subst (asm) setWeekdays.simps) (simp split: if_splits)
    with True "1.prems" have
      "setWeekdays (Suc i) tot line (entries[i := (entries ! i)\<lparr>ciWeekday := line ! i\<rparr>]) = Inr es"
      by (subst (asm) setWeekdays.simps) simp
    from "1.IH" [OF True ok this] ok show ?thesis
      by (simp add: map_update list_update_same_conv)
  next
    case False
    with "1.prems" show ?thesis by (subst (asm) setWeekdays.simps) simp
  qed
qed

lemma only_weekday_assigned:
  assumes "getCalendarIntervalsFromSchedule schedule = Inr es"
  shows "map ciMonth es = replicate (length es) 0 \<and> map ciDay es = replicate (length es) 0 \<and>
         map ciHour es = replicate (length es) 0 \<and> map ciMinute es = replicate (length es) 0"
proof -
  define tot where "tot = nat (countEntries 0 (scheduleValues schedule))"
  have base: "map ciMonth (replicate tot emptyInterval) = replicate tot 0 \<and>
              map ciDay (replicate tot emptyInterval) = replicate tot 0 \<and>
              map ciHour (replicate tot emptyInterval) = replicate tot 0 \<and>
              map ciMinute (replicate tot emptyInterval) = replicate tot 0"
    by (simp add: emptyInterval_def)
  show ?thesis
  proof (cases "HasValue (WeekDay schedule)")
    case False
    with assms have "es = replicate tot emptyInterval"
      by (simp add: getCalendarIntervalsFromSchedule_def tot_def Let_def split: if_splits)
    then show ?thesis using base by simp
  next
    case True
    with assms obtain line where
      "setWeekdays 0 tot line (replicate tot emptyInterval) = Inr es"
      by (auto simp: getCalendarIntervalsFromSchedule_def tot_def [symmetric] Let_def
          split: sum.splits if_splits)
    from setWeekdays_keeps [OF this] base
    have m: "map ciMonth es = replicate tot 0 \<and> map ciDay es = replicate tot 0 \<and>
          map ciHour es = replicate tot 0 \<and> map ciMinute es = replicate tot 0"
      by simp
    then have "length es = tot"
      by (metis length_map length_replicate)
    with m show ?thesis by simp
  qed
qed

text \<open>
  With none of the five fields set the first loop never changes \<open>total\<close>, which keeps
  its initial \<open>0\<close>: the code returns the empty slice. (The statement of C1 above says
  nothing about this case.)
\<close>

lemma unconstrained_entries: "getCalendarIntervalsFromSchedule unconstrained = Inr []"
  by (simp add: getCalendarIntervalsFromSchedule_def unconstrained_def scheduleValues_def
      maxAlloc_def sizeofCalendarInterval_def)

text \<open>
  C2. The claim: the expression for Monday to Friday, minutes \<open>0\<close> and \<open>30\<close>, every
  hour, gives exactly ten entries, each with one weekday and one minute value and no
  hour. The comment above \<open>getCalendarIntervalsFromSchedules\<close> lists the same ten
  entries (\<open>Weekday = Monday, Minute = 0\<close>, \<open>Weekday = Monday, Minute = 30\<close>, ...). The
  code emits ten entries but never assigns \<open>Minute\<close>: every weekday appears twice with
  the zero value, and no entry holds minute \<open>30\<close>.
\<close>

theorem weekdaysHalfHourly_entries:
  "getCalendarIntervalsFromSchedules [weekdaysHalfHourly] =
     Inr [\<lparr>ciMonth = 0, ciDay = 0, ciWeekday = 1, ciHour = 0, ciMinute = 0\<rparr>,
          \<lparr>ciMonth = 0, ciDay = 0, ciWeekday = 1, ciHour = 0, ciMinute = 0\<rparr>,
          \<lparr>ciMonth = 0, ciDay = 0, ciWeekday = 2, ciHour = 0, ciMinute = 0\<rparr>,
          \<lparr>ciMonth = 0, ciDay = 0, ciWeekday = 2, ciHour = 0, ciMinute = 0\<rparr>,
          \<lparr>ciMonth = 0, ciDay = 0, ciWeekday = 3, ciHour = 0, ciMinute = 0\<rparr>,
          \<lparr>ciMonth = 0, ciDay = 0, ciWeekday = 3, ciHour = 0, ciMinute = 0\<rparr>,
          \<lparr>ciMonth = 0, ciDay = 0, ciWeekday = 4, ciHour = 0, ciMinute = 0\<rparr>,
          \<lparr>ciMonth = 0, ciDay = 0, ciWeekday = 4, ciHour = 0, ciMinute = 0\<rparr>,
          \<lparr>ciMonth = 0, ciDay = 0, ciWeekday = 5, ciHour = 0, ciMinute = 0\<rparr>,
          \<lparr>ciMonth = 0, ciDay = 0, ciWeekday = 5, ciHour = 0, ciMinute = 0\<rparr>]"
  by code_simp

text \<open>
  C3. The claim: every combination of one value per multi-valued field appears exactly
  once among the entries, entry \<open>i\<close> taking for each field the value at position
  \<open>(i / blockSize) mod cardinality\<close>. For Monday and Tuesday at hours \<open>0\<close> and \<open>12\<close> the
  four combinations are expected; the code spreads the weekday only, so the entry for
  Monday without an hour appears twice and no entry holds hour \<open>12\<close>.
\<close>

theorem mondayTuesdayTwice_entries:
  "getCalendarIntervalsFromSchedule mondayTuesdayTwice =
     Inr [\<lparr>ciMonth = 0, ciDay = 0, ciWeekday = 1, ciHour = 0, ciMinute = 0\<rparr>,
          \<lparr>ciMonth = 0, ciDay = 0, ciWeekday = 1, ciHour = 0, ciMinute = 0\<rparr>,
          \<lparr>ciMonth = 0, ciDay = 0, ciWeekday = 2, ciHour = 0, ciMinute = 0\<rparr>,
          \<lparr>ciMonth = 0, ciDay = 0, ciWeekday = 2, ciHour = 0, ciMinute = 0\<rparr>]"
  by code_simp


section \<open>Properties of the job names\<close>











section \<open>Properties of the jobs\<close>

text \<open>
  C4. The claim: for a remove-only job, \<open>Create\<close> and \<open>Status\<close> return
  \<open>ErrorJobCanBeRemovedOnly\<close> without any call (no permission check, no handler call),
  while \<open>Remove\<close> still calls \<open>RemoveJob\<close>. The first part holds as stated. \<open>Remove\<close>
  checks the detected permission before it calls the handler, for remove-only jobs
  too: it calls \<open>RemoveJob\<close>, as its only handler call, when that check passes.
\<close>

theorem removeOnly_create_status_remove:
  assumes "RemoveOnly j"
  shows "Create P j = (Some ErrorJobCanBeRemovedOnly, []) \<and>
         Status j = (Some ErrorJobCanBeRemovedOnly, []) \<and>
         (checkPermission P (fst (detectSchedulePermission P (Permission (config j)))) \<longrightarrow>
          Remove P j =
            (let permission = fst (detectSchedulePermission P (Permission (config j)));
                 t = [DetectSchedulePermissionCall (Permission (config j)),
                      CheckPermissionCall permission]
             in (RemoveJob (handler j) t (config j) permission,
                 t @ [RemoveJobCall (config j) permission])))"
  using assms by (simp add: Create_def Status_def Remove_def Let_def)

theorem removeOnly_create_status_remove_witness:
  "RemoveOnly (jobFor ''user'' [''daily''] True failingHandler) \<and>
   checkPermission nonRoot (fst (detectSchedulePermission nonRoot ''user'')) \<and>
   Create nonRoot (jobFor ''user'' [''daily''] True failingHandler) =
     (Some ErrorJobCanBeRemovedOnly, []) \<and>
   Status (jobFor ''user'' [''daily''] True failingHandler) =
     (Some ErrorJobCanBeRemovedOnly, []) \<and>
   Remove nonRoot (jobFor ''user'' [''daily''] True failingHandler) =
     (Some (HandlerError ''cannot unload''),
      [DetectSchedulePermissionCall ''user'', CheckPermissionCall ''user'',
       RemoveJobCall (config (jobFor ''user'' [''daily''] True failingHandler)) ''user''])"
proof -
  have r: "RemoveOnly (jobFor ''user'' [''daily''] True failingHandler)"
    by (simp add: RemoveOnly_def jobFor_def)
  show ?thesis
    using removeOnly_create_status_remove
      [OF r, of nonRoot] r
    by (simp add: jobFor_def nonRoot_def failingHandler_def Let_def)
qed

text \<open>
  A remove-only job configured for the \<open>system\<close> permission, removed by a user without
  administrator rights: \<open>Remove\<close> returns the permission error and the handler is not
  called.
\<close>

theorem removeOnly_remove_refused:
  "RemoveOnly (jobFor ''system'' [] True quietHandler) \<and>
   Remove nonRoot (jobFor ''system'' [] True quietHandler) =
     (Some (PermissionError ''remove''),
      [DetectSchedulePermissionCall ''system'', CheckPermissionCall ''system''])"
  by (simp add: Remove_def RemoveOnly_def jobFor_def nonRoot_def permissionError_def)

text \<open>
  C5. In \<open>Create\<close>, a failed permission check returns the permission error without
  any handler call; an error of \<open>ParseSchedules\<close> is returned and \<open>ParseSchedules\<close> stays
  the only handler call, so \<open>CreateJob\<close> is not called. For every job \<open>CreateJob\<close> is
  called at most once, as the last call, and what it returns is what \<open>Create\<close> returns.
  (A remove-only job returns before the permission check.)
\<close>

theorem create_fails_before_CreateJob:
  "(\<not> RemoveOnly j \<and>
    \<not> checkPermission P (getSchedulePermission P (Permission (config j))) \<longrightarrow>
      fst (Create P j) = Some (permissionError ''create'') \<and>
      \<not> list_ex isHandlerCall (snd (Create P j))) \<and>
   (\<not> RemoveOnly j \<and>
    checkPermission P (getSchedulePermission P (Permission (config j))) \<and>
    ParseSchedules (handler j)
      [GetSchedulePermissionCall (Permission (config j)),
       CheckPermissionCall (getSchedulePermission P (Permission (config j)))]
      (Schedules (config j)) = Inl err \<longrightarrow>
      fst (Create P j) = Some err \<and>
      filter isHandlerCall (snd (Create P j)) = [ParseSchedulesCall (Schedules (config j))]) \<and>
   length (filter isCreateJobCall (snd (Create P j))) \<le> 1 \<and>
   (list_ex isCreateJobCall (snd (Create P j)) \<longrightarrow>
      isCreateJobCall (last (snd (Create P j)))) \<and>
   (snd (Create P j) = t @ [CreateJobCall c schedules permission] \<longrightarrow>
      fst (Create P j) = CreateJob (handler j) t c schedules permission)"
  by (auto simp: Create_def Let_def split: sum.splits option.splits)

theorem create_fails_before_CreateJob_witness:
  "\<not> RemoveOnly (jobFor ''system'' [''daily''] False failingHandler) \<and>
   \<not> checkPermission nonRoot (getSchedulePermission nonRoot ''system'') \<and>
   Create nonRoot (jobFor ''system'' [''daily''] False failingHandler) =
     (Some (PermissionError ''create''),
      [GetSchedulePermissionCall ''system'', CheckPermissionCall ''system'']) \<and>
   \<not> RemoveOnly (jobFor ''user'' [''daily''] False failingHandler) \<and>
   checkPermission nonRoot (getSchedulePermission nonRoot ''user'') \<and>
   Create nonRoot (jobFor ''user'' [''daily''] False failingHandler) =
     (Some (HandlerError ''empty schedule''),
      [GetSchedulePermissionCall ''user'', CheckPermissionCall ''user'',
       ParseSchedulesCall [''daily'']]) \<and>
   Create nonRoot (jobFor ''user'' [] False failingHandler) =
     (Some (HandlerError ''cannot write plist''),
      [GetSchedulePermissionCall ''user'', CheckPermissionCall ''user'',
       ParseSchedulesCall [], DisplaySchedulesCall ''backup'' [],
       CreateJobCall (config (jobFor ''user'' [] False failingHandler)) [] ''user''])"
proof -
  have a: "\<not> RemoveOnly (jobFor ''system'' [''daily''] False failingHandler)"
    and b: "\<not> RemoveOnly (jobFor ''user'' [''daily''] False failingHandler)"
    by (simp_all add: RemoveOnly_def jobFor_def)
  have n: "\<not> checkPermission nonRoot (getSchedulePermission nonRoot ''system'')"
    and y: "checkPermission nonRoot (getSchedulePermission nonRoot ''user'')"
    by (simp_all add: nonRoot_def)
  have 1: "Create nonRoot (jobFor ''system'' [''daily''] False failingHandler) =
     (Some (PermissionError ''create''),
      [GetSchedulePermissionCall ''system'', CheckPermissionCall ''system''])"
    by (simp add: Create_def RemoveOnly_def jobFor_def nonRoot_def permissionError_def Let_def)
  have 2: "Create nonRoot (jobFor ''user'' [''daily''] False failingHandler) =
     (Some (HandlerError ''empty schedule''),
      [GetSchedulePermissionCall ''user'', CheckPermissionCall ''user'',
       ParseSchedulesCall [''daily'']])"
    by (simp add: Create_def RemoveOnly_def jobFor_def nonRoot_def failingHandler_def Let_def)
  have 3: "snd (Create nonRoot (jobFor ''user'' [] False failingHandler)) =
     [GetSchedulePermissionCall ''user'', CheckPermissionCall ''user'',
      ParseSchedulesCall [], DisplaySchedulesCall ''backup'' []] @
     [CreateJobCall (config (jobFor ''user'' [] False failingHandler)) [] ''user'']"
    by (simp add: Create_def RemoveOnly_def jobFor_def nonRoot_def failingHandler_def Let_def)
  have 4: "fst (Create nonRoot (jobFor ''user'' [] False failingHandler)) =
     Some (HandlerError ''cannot write plist'')"
    using create_fails_before_CreateJob
      [of "jobFor ''user'' [] False failingHandler" nonRoot _
          "[GetSchedulePermissionCall ''user'', CheckPermissionCall ''user'',
            ParseSchedulesCall [], DisplaySchedulesCall ''backup'' []]"
          "config (jobFor ''user'' [] False failingHandler)" "[]" "''user''"] 3
    by (simp add: jobFor_def failingHandler_def)
  show ?thesis using a b n y 1 2 3 4 by (simp add: prod_eq_iff)
qed

text \<open>
  C6. The claim: for a remove-only job \<open>Remove\<close> detects the permission, ignores a
  failed detection and still calls \<open>RemoveJob\<close>; only for the other jobs does an
  insufficient permission end \<open>Remove\<close> with a permission error. In the code the flag
  that the detection returns is ignored, but the permission check follows for every
  job: with an insufficient permission \<open>Remove\<close> returns the permission error before
  any handler call, remove-only or not, and a remove-only job reaches \<open>RemoveJob\<close> when
  the detected permission passes the check.
\<close>

theorem remove_permission_gate:
  "Remove (P\<lparr>detectSchedulePermission :=
               (\<lambda>p. (fst (detectSchedulePermission P p), flag p))\<rparr>) j = Remove P j \<and>
   (RemoveOnly j \<and>
    checkPermission P (fst (detectSchedulePermission P (Permission (config j)))) \<longrightarrow>
      fst (Remove P j) =
        RemoveJob (handler j)
          [DetectSchedulePermissionCall (Permission (config j)),
           CheckPermissionCall (fst (detectSchedulePermission P (Permission (config j))))]
          (config j) (fst (detectSchedulePermission P (Permission (config j)))) \<and>
      filter isHandlerCall (snd (Remove P j)) =
        [RemoveJobCall (config j)
           (fst (detectSchedulePermission P (Permission (config j))))]) \<and>
   (\<not> checkPermission P
         (if RemoveOnly j then fst (detectSchedulePermission P (Permission (config j)))
          else getSchedulePermission P (Permission (config j))) \<longrightarrow>
      fst (Remove P j) = Some (permissionError ''remove'') \<and>
      \<not> list_ex isHandlerCall (snd (Remove P j)))"
  by (simp add: Remove_def Let_def)

theorem remove_permission_gate_witness:
  "RemoveOnly (jobFor ''auto'' [] True quietHandler) \<and>
   detectSchedulePermission nonRoot ''auto'' = (''user'', False) \<and>
   checkPermission nonRoot ''user'' \<and>
   Remove nonRoot (jobFor ''auto'' [] True quietHandler) =
     (None,
      [DetectSchedulePermissionCall ''auto'', CheckPermissionCall ''user'',
       RemoveJobCall (config (jobFor ''auto'' [] True quietHandler)) ''user'']) \<and>
   \<not> RemoveOnly (jobFor ''system'' [] False quietHandler) \<and>
   \<not> checkPermission nonRoot (getSchedulePermission nonRoot ''system'') \<and>
   fst (Remove nonRoot (jobFor ''system'' [] False quietHandler)) =
     Some (PermissionError ''remove'')"
proof -
  have a: "RemoveOnly (jobFor ''auto'' [] True quietHandler)"
    and b: "\<not> RemoveOnly (jobFor ''system'' [] False quietHandler)"
    by (simp_all add: RemoveOnly_def jobFor_def)
  have d: "detectSchedulePermission nonRoot ''auto'' = (''user'', False)"
    and c: "checkPermission nonRoot ''user''"
    and n: "\<not> checkPermission nonRoot (getSchedulePermission nonRoot ''system'')"
    by (simp_all add: nonRoot_def)
  have 1: "Remove nonRoot (jobFor ''auto'' [] True quietHandler) =
     (None,
      [DetectSchedulePermissionCall ''auto'', CheckPermissionCall ''user'',
       RemoveJobCall (config (jobFor ''auto'' [] True quietHandler)) ''user''])"
    using a by (simp add: Remove_def Let_def jobFor_def nonRoot_def quietHandler_def)
  have 2: "fst (Remove nonRoot (jobFor ''system'' [] False quietHandler)) =
     Some (PermissionError ''remove'')"
    using remove_permission_gate [of nonRoot "\<lambda>p. True" "jobFor ''system'' [] False quietHandler"]
      b n
    by (simp add: jobFor_def permissionError_def)
  show ?thesis using a b c d n 1 2 by simp
qed

text \<open>
  A remove-only job that names the \<open>system\<close> permission, removed by a user without
  administrator rights: the insufficient permission ends \<open>Remove\<close> with the permission
  error although the job is remove-only.
\<close>

theorem removeOnly_remove_permission_error:
  "RemoveOnly (jobFor ''system'' [''daily''] True failingHandler) \<and>
   Remove nonRoot (jobFor ''system'' [''daily''] True failingHandler) =
     (Some (PermissionError ''remove''),
      [DetectSchedulePermissionCall ''system'', CheckPermissionCall ''system''])"
  by (simp add: Remove_def RemoveOnly_def jobFor_def nonRoot_def permissionError_def)

section \<open>Properties of the lock\<close>

text \<open>
  C7. Two handles on one path and no marker at the start: the first \<open>TryAcquire\<close>
  returns true, the second, on the other handle, returns false, and after the first
  handle's \<open>Release\<close> a further \<open>TryAcquire\<close> on that path returns true. \<open>TryAcquire\<close>
  returns true exactly when this call created the marker: none existed before and the
  caller's marker exists after; when it returns false the file system is unchanged.
\<close>

theorem lock_exclusion:
  assumes "fs p = None" and "Lockfile l1 = p" and "Lockfile l2 = p" and "Lockfile l3 = p"
  shows "lockScenario o1 o2 o3 fs l1 l2 l3 = (True, False, True) \<and>
         (fst (TryAcquire me fs' l) \<longleftrightarrow>
            fs' (Lockfile l) = None \<and>
            fst (snd (TryAcquire me fs' l)) (Lockfile l) = Some me) \<and>
         (\<not> fst (TryAcquire me fs' l) \<longrightarrow> fst (snd (TryAcquire me fs' l)) = fs')"
  using assms
  by (simp add: lockScenario_def TryAcquire_def Release_def split: option.splits)

theorem lock_exclusion_witness:
  "(\<lambda>x. None) ''/tmp/backup.lock'' = (None :: Owner option) \<and>
   Lockfile (NewLock ''/tmp/backup.lock'') = ''/tmp/backup.lock'' \<and>
   lockScenario (someOwner 1) (someOwner 2) (someOwner 3) (\<lambda>x. None)
     (NewLock ''/tmp/backup.lock'') (NewLock ''/tmp/backup.lock'')
     (NewLock ''/tmp/backup.lock'') = (True, False, True) \<and>
   \<not> fst (TryAcquire (someOwner 2) [''/tmp/backup.lock'' \<mapsto> someOwner 1]
           (NewLock ''/tmp/backup.lock'')) \<and>
   fst (snd (TryAcquire (someOwner 2) [''/tmp/backup.lock'' \<mapsto> someOwner 1]
     (NewLock ''/tmp/backup.lock''))) = [''/tmp/backup.lock'' \<mapsto> someOwner 1]"
proof -
  have h: "(\<lambda>x. None) ''/tmp/backup.lock'' = (None :: Owner option)" by simp
  have l: "Lockfile (NewLock ''/tmp/backup.lock'') = ''/tmp/backup.lock''"
    by (simp add: NewLock_def)
  have held: "\<not> fst (TryAcquire (someOwner 2) [''/tmp/backup.lock'' \<mapsto> someOwner 1]
           (NewLock ''/tmp/backup.lock''))"
    by (simp add: TryAcquire_def NewLock_def)
  show ?thesis
    using lock_exclusion [OF h l l l, of "someOwner 1" "someOwner 2" "someOwner 3"
        "someOwner 2" "[''/tmp/backup.lock'' \<mapsto> someOwner 1]"
        "NewLock ''/tmp/backup.lock''"] l held
    by simp
qed

end
